theory Spec2Isabelle
  imports Main "HOL-Library.Sublist"
begin

section \<open>Data model (types.ts)\<close>

text \<open>
  Strings are \<open>char list\<close>s. Clock readings (\<open>new Date()\<close>, \<open>Date.now()\<close>) are natural
  numbers; their rendering with \<open>toISOString()\<close> or \<open>toString()\<close> is kept as the reading
  itself. Fields of the provider's response objects that no code on the turn path reads
  (object, metadata, usage, ...) are left out of the records.
\<close>

datatype role = User | Assistant

record attachment =
  att_id :: string
  filename :: string
  content_type :: string
  file_size :: nat

record message =
  msg_id :: "nat option"
  msg_threadId :: string
  content :: string
  role :: role
  timestamp :: nat
  attachments :: "attachment list"

record configuration =
  cfg_id :: "string option"
  apiKey :: string
  assistantId :: string
  vectorStoreId :: string
  model :: string
  isDefault :: bool
  cfg_name :: string
  webhookURL :: string
  useAssistantApi :: bool

record thread =
  threadId :: string
  name :: string
  createdAt :: nat
  lastUpdated :: nat
  isActive :: bool

datatype run_status =
  Queued | In_progress | Completed | Requires_action | Failed | Cancelled | Expired

text \<open>\<open>OpenAIRunResponse\<close>: the identifier and the status are the only fields read.\<close>

record run_response =
  run_id :: string
  status :: run_status

text \<open>
  One segment of \<open>OpenAIMessageResponse.content\<close>: its \<open>type\<close> and, when the optional
  \<open>text\<close> object is present, that object's \<open>value\<close>.
\<close>

record content_part =
  part_type :: string
  part_text :: "string option"

record openai_message =
  om_id :: string
  created_at :: nat
  om_role :: role
  om_content :: "content_part list"

text \<open>\<open>OpenAIMessagesListResponse\<close>: only \<open>data\<close> is read.\<close>

record messages_list =
  data :: "openai_message list"

text \<open>An entry of the history sent to the completion endpoint: role and text only.\<close>

record chat_entry =
  ce_role :: role
  ce_content :: string

record completion_request =
  cr_model :: string
  cr_messages :: "chat_entry list"
  temperature :: "nat \<times> nat"
  max_tokens :: nat

text \<open>
  \<open>CompletionResponse.choices\<close>: each choice is kept as its optional \<open>message\<close>, itself
  kept as its \<open>content\<close> (the code reads \<open>choices[0]?.message?.content\<close>).
\<close>

record completion_response =
  choices :: "string option list"

record webhook_payload =
  userName :: string
  prompt :: string
  wh_timestamp :: nat
  wh_model :: string
  wh_threadId :: string

text \<open>The JSON body posted by \<open>sendMessage\<close>; \<open>file_ids\<close> is \<open>None\<close> when the key is absent.\<close>

record send_payload =
  sp_role :: string
  sp_content :: string
  file_ids :: "string list option"

record run_payload =
  assistant_id :: string
  rp_model :: "string option"

section \<open>Errors and the outside world\<close>

text \<open>A thrown JavaScript \<open>Error\<close>, identified by its \<open>message\<close>.\<close>

datatype js_error = Error (message: string)

text \<open>
  What a rejected HTTP request throws: whether \<open>axios.isAxiosError\<close> holds of it, the
  response status when a response arrived, the provider's \<open>data.error.message\<close> when
  present, and the thrown object's own \<open>message\<close>.
\<close>

record http_failure =
  isAxiosError :: bool
  response_status :: "nat option"
  api_error_message :: "string option"
  failure_message :: string

text \<open>
  The environment of one turn: the outcome of every HTTP request the turn can issue and
  the readings of the clock. \<open>get_run k\<close> is the outcome of the \<open>k\<close>-th run-status read
  (counted from 0 over the whole log of calls); \<open>clock k\<close> is the \<open>k\<close>-th clock reading.
\<close>

record env =
  post_message :: "http_failure + unit"
  post_run :: "http_failure + run_response"
  get_run :: "nat \<Rightarrow> http_failure + run_response"
  get_messages :: "http_failure + messages_list"
  post_completion :: "http_failure + completion_response"
  post_webhook :: "http_failure + unit"
  clock :: "nat \<Rightarrow> nat"

text \<open>
  Effects, logged in program order: appends to the store's message list and the requests
  sent to the gateway. The log is a ghost field; the code reads nothing from it.
\<close>

datatype event =
    StoreAddMessage message
  | GwSendMessage string send_payload
  | GwRunAssistant string run_payload
  | GwCheckRunStatus string string
  | GwGetMessages string
  | GwCreateCompletion completion_request
  | GwWebhook string webhook_payload

text \<open>
  The state a turn works on: the zustand store (store.ts; \<open>configurations\<close> and
  \<open>darkMode\<close>, which no turn touches, are left out), the React state of
  \<open>ChatInterface\<close> (\<open>input\<close>, \<open>fileAttachments\<close>, \<open>error\<close>, \<open>runId\<close>; a selected
  \<open>File\<close> is kept as its name), the log of effects and the number of clock readings
  taken so far.
\<close>

record world =
  threads :: "thread list"
  activeThread :: "thread option"
  messages :: "message list"
  activeConfiguration :: "configuration option"
  isLoading :: bool
  input :: string
  fileAttachments :: "string list"
  error :: "string option"
  runId :: "string option"
  calls :: "event list"
  ticks :: nat

text \<open>
  What the handlers of one render of \<open>ChatInterface\<close> close over. The handlers read
  these values, not the store: a store update during the turn does not change them.
\<close>

record closure =
  c_input :: string
  c_fileAttachments :: "string list"
  c_activeThread :: "thread option"
  c_activeConfiguration :: "configuration option"
  c_threadMessages :: "message list"

section \<open>String helpers of the JavaScript runtime\<close>

text \<open>\<open>String.prototype.trim\<close>, on the ASCII white space characters.\<close>

definition isWhiteSpace :: "char \<Rightarrow> bool" where
  "isWhiteSpace c \<longleftrightarrow> c \<in> set [CHR 0x09, CHR 0x0A, CHR 0x0B, CHR 0x0C, CHR 0x0D, CHR '' '']"

definition trim :: "string \<Rightarrow> string" where
  "trim s = rev (dropWhile isWhiteSpace (rev (dropWhile isWhiteSpace s)))"

text \<open>\<open>s.split(sep)\<close> for a one-character separator: the empty string gives \<open>['''']\<close>.\<close>

fun js_split :: "char \<Rightarrow> string \<Rightarrow> string list" where
  "js_split sep [] = [[]]"
| "js_split sep (c # cs) =
     (if c = sep then [] # js_split sep cs
      else (case js_split sep cs of
              [] \<Rightarrow> [[c]]
            | p # ps \<Rightarrow> (c # p) # ps))"

text \<open>\<open>xs.join(sep)\<close>.\<close>

fun js_join :: "string \<Rightarrow> string list \<Rightarrow> string" where
  "js_join sep [] = []"
| "js_join sep [x] = x"
| "js_join sep (x # y # ys) = x @ sep @ js_join sep (y # ys)"

text \<open>\<open>xs.slice(-n)\<close>: the last \<open>n\<close> elements, all of them when there are fewer.\<close>

definition slice_last :: "nat \<Rightarrow> 'a list \<Rightarrow> 'a list" where
  "slice_last n xs = drop (length xs - n) xs"

section \<open>The store (store.ts)\<close>

definition now :: "env \<Rightarrow> world \<Rightarrow> nat \<times> world" where
  "now e w = (clock e (ticks w), w\<lparr>ticks := Suc (ticks w)\<rparr>)"

definition updateThread :: "thread \<Rightarrow> world \<Rightarrow> world" where
  "updateThread th w =
     w\<lparr>threads := map (\<lambda>t. if threadId t = threadId th then th else t) (threads w),
       activeThread :=
         (case activeThread w of
            None \<Rightarrow> None
          | Some a \<Rightarrow> if threadId a = threadId th then Some th else Some a)\<rparr>"

definition addMessage :: "env \<Rightarrow> message \<Rightarrow> world \<Rightarrow> world" where
  "addMessage e m w =
     (let (i, w1) = now e w;
          newMessage = m\<lparr>msg_id := Some i\<rparr>;
          w2 = w1\<lparr>messages := messages w1 @ [newMessage],
                  calls := calls w1 @ [StoreAddMessage newMessage]\<rparr>
      in case find (\<lambda>t. threadId t = msg_threadId m) (threads w2) of
           None \<Rightarrow> w2
         | Some th \<Rightarrow>
             (let (t, w3) = now e w2
              in updateThread (th\<lparr>lastUpdated := t\<rparr>) w3))"

definition getThreadMessages :: "world \<Rightarrow> string \<Rightarrow> message list" where
  "getThreadMessages w tid = filter (\<lambda>m. msg_threadId m = tid) (messages w)"

definition setLoading :: "bool \<Rightarrow> world \<Rightarrow> world" where
  "setLoading b w = w\<lparr>isLoading := b\<rparr>"

section \<open>The gateway (services/api.ts)\<close>

definition sendMessage ::
  "env \<Rightarrow> configuration \<Rightarrow> string \<Rightarrow> string \<Rightarrow> string list option \<Rightarrow> world
     \<Rightarrow> (js_error + unit) \<times> world" where
  "sendMessage e config tid cont fileIdsArg w =
     (let fileIds = (case fileIdsArg of None \<Rightarrow> [] | Some f \<Rightarrow> f);
          payload = \<lparr>sp_role = ''user'', sp_content = cont, file_ids = None\<rparr>;
          payload = (if length fileIds > 0 then payload\<lparr>file_ids := Some fileIds\<rparr>
                     else payload);
          w1 = w\<lparr>calls := calls w @ [GwSendMessage tid payload]\<rparr>
      in case post_message e of
           Inr u \<Rightarrow> (Inr u, w1)
         | Inl f \<Rightarrow>
             (if isAxiosError f \<and> response_status f = Some 404 then
                (Inl (Error (''Thread '' @ tid
                       @ '' not found. It may have expired or been deleted.'')), w1)
              else if isAxiosError f \<and> response_status f = Some 401 then
                (Inl (Error ''Authentication failed. Please check your API key.''), w1)
              else if isAxiosError f \<and> response_status f = Some 400 then
                (Inl (Error (''Bad request: '' @
                   (case api_error_message f of
                      None \<Rightarrow> ''Invalid request format''
                    | Some em \<Rightarrow> if em = [] then ''Invalid request format'' else em))), w1)
              else (Inl (Error ''Failed to send message. Please try again.''), w1)))"

definition runAssistant ::
  "env \<Rightarrow> configuration \<Rightarrow> string \<Rightarrow> world \<Rightarrow> (js_error + run_response) \<times> world" where
  "runAssistant e config tid w =
     (let runPayload = \<lparr>assistant_id = assistantId config, rp_model = None\<rparr>;
          runPayload = (if model config \<noteq> [] then runPayload\<lparr>rp_model := Some (model config)\<rparr>
                        else runPayload);
          w1 = w\<lparr>calls := calls w @ [GwRunAssistant tid runPayload]\<rparr>
      in case post_run e of
           Inr r \<Rightarrow> (Inr r, w1)
         | Inl f \<Rightarrow>
             (if isAxiosError f \<and> response_status f = Some 404 then
                (Inl (Error (''Thread '' @ tid @ '' or assistant not found.'')), w1)
              else if isAxiosError f \<and> response_status f = Some 400 then
                (Inl (Error (''Bad request: '' @
                   (case api_error_message f of
                      None \<Rightarrow> ''Invalid request''
                    | Some em \<Rightarrow> if em = [] then ''Invalid request'' else em))), w1)
              else (Inl (Error ''Failed to run assistant. Please try again.''), w1)))"

fun is_poll :: "event \<Rightarrow> bool" where
  "is_poll (GwCheckRunStatus _ _) = True"
| "is_poll _ = False"

text \<open>The number of run-status reads in a log.\<close>

definition polls :: "event list \<Rightarrow> nat" where
  "polls evs = length (filter is_poll evs)"

text \<open>\<open>checkRunStatus\<close> rethrows what the request threw.\<close>

definition checkRunStatus ::
  "env \<Rightarrow> configuration \<Rightarrow> string \<Rightarrow> string \<Rightarrow> world \<Rightarrow> (js_error + run_response) \<times> world" where
  "checkRunStatus e config tid rid w =
     (let w1 = w\<lparr>calls := calls w @ [GwCheckRunStatus tid rid]\<rparr>
      in case get_run e (polls (calls w)) of
           Inr r \<Rightarrow> (Inr r, w1)
         | Inl f \<Rightarrow> (Inl (Error (failure_message f)), w1))"

definition getMessages ::
  "env \<Rightarrow> configuration \<Rightarrow> string \<Rightarrow> world \<Rightarrow> (js_error + messages_list) \<times> world" where
  "getMessages e config tid w =
     (let w1 = w\<lparr>calls := calls w @ [GwGetMessages tid]\<rparr>
      in case get_messages e of
           Inr r \<Rightarrow> (Inr r, w1)
         | Inl f \<Rightarrow> (Inl (Error (failure_message f)), w1))"

definition createCompletion ::
  "env \<Rightarrow> configuration \<Rightarrow> chat_entry list \<Rightarrow> world
     \<Rightarrow> (js_error + completion_response) \<times> world" where
  "createCompletion e config msgs w =
     (let requestData = \<lparr>cr_model = model config, cr_messages = msgs,
                          temperature = (7, 10), max_tokens = 1000\<rparr>;
          w1 = w\<lparr>calls := calls w @ [GwCreateCompletion requestData]\<rparr>
      in case post_completion e of
           Inr r \<Rightarrow> (Inr r, w1)
         | Inl f \<Rightarrow> (Inl (Error (failure_message f)), w1))"

text \<open>
  \<open>sendWebhook\<close>: the request is issued; a rejection is caught and turned into the
  result \<open>false\<close>.
\<close>

definition sendWebhook ::
  "env \<Rightarrow> string \<Rightarrow> webhook_payload \<Rightarrow> world \<Rightarrow> (js_error + bool) \<times> world" where
  "sendWebhook e url payload w =
     (let w1 = w\<lparr>calls := calls w @ [GwWebhook url payload]\<rparr>
      in case post_webhook e of
           Inr u \<Rightarrow> (Inr True, w1)
         | Inl f \<Rightarrow> (Inr False, w1))"

section \<open>The turn orchestrator (components/ChatInterface.tsx)\<close>

text \<open>
  The component renders from the store and its own state; \<open>threadMessages\<close> is computed
  at render time from the active thread.
\<close>

definition render :: "world \<Rightarrow> closure" where
  "render w =
     \<lparr>c_input = input w,
      c_fileAttachments = fileAttachments w,
      c_activeThread = activeThread w,
      c_activeConfiguration = activeConfiguration w,
      c_threadMessages =
        (case activeThread w of
           None \<Rightarrow> []
         | Some th \<Rightarrow> getThreadMessages w (threadId th))\<rparr>"

definition maxPolls :: nat where
  "maxPolls = 60"

text \<open>
  The polling loop of \<open>handleAssistantWorkflow\<close>. The one-second sleep before each read
  has no effect on the state and is not modelled.
\<close>

function poll_loop ::
  "env \<Rightarrow> configuration \<Rightarrow> string \<Rightarrow> string \<Rightarrow> run_status \<Rightarrow> nat \<Rightarrow> world
     \<Rightarrow> (js_error + run_status) \<times> world" where
  "poll_loop e config tid rid runStatus pollCount w =
     (if runStatus \<noteq> Completed \<and> runStatus \<noteq> Failed \<and> runStatus \<noteq> Cancelled
         \<and> pollCount < maxPolls
      then (case checkRunStatus e config tid rid w of
              (Inl err, w1) \<Rightarrow> (Inl err, w1)
            | (Inr statusResponse, w1) \<Rightarrow>
                poll_loop e config tid rid (status statusResponse) (pollCount + 1) w1)
      else (Inr runStatus, w))"
  by pat_completeness auto
termination
  by (relation "measure (\<lambda>(e, config, tid, rid, runStatus, pollCount, w). maxPolls - pollCount)")
     auto

declare poll_loop.simps [simp del]

definition updateThreadNameIfNeeded :: "closure \<Rightarrow> string \<Rightarrow> world \<Rightarrow> world" where
  "updateThreadNameIfNeeded r userInput w =
     (case c_activeThread r of
        None \<Rightarrow> w
      | Some th \<Rightarrow>
          if prefix ''Thread '' (name th) then
            (let firstFewWords = js_join '' '' (take 4 (js_split CHR '' '' userInput));
                 newName = firstFewWords @ ''...''
             in updateThread (th\<lparr>name := newName\<rparr>) w)
          else w)"

text \<open>
  The promise returned by \<open>sendWebhook\<close> is not awaited: its result is dropped.
\<close>

definition sendWebhookIfConfigured :: "env \<Rightarrow> closure \<Rightarrow> string \<Rightarrow> world \<Rightarrow> world" where
  "sendWebhookIfConfigured e r userInput w =
     (case (c_activeConfiguration r, c_activeThread r) of
        (Some config, Some th) \<Rightarrow>
          if webhookURL config \<noteq> [] then
            (let (t, w1) = now e w
             in snd (sendWebhook e (webhookURL config)
                       \<lparr>userName = ''User'', prompt = userInput, wh_timestamp = t,
                        wh_model = model config, wh_threadId = threadId th\<rparr> w1))
          else w
      | _ \<Rightarrow> w)"

text \<open>The text of a fetched message: its text segments, joined by newlines.\<close>

definition extract_text :: "openai_message \<Rightarrow> string" where
  "extract_text m =
     js_join [CHR 0x0A]
       (map (\<lambda>c. case part_text c of None \<Rightarrow> [] | Some v \<Rightarrow> v)
            (filter (\<lambda>c. part_type c = ''text'') (om_content m)))"

text \<open>What \<open>handleAssistantWorkflow\<close> does once the polling loop has ended.\<close>

definition resolve_run ::
  "env \<Rightarrow> closure \<Rightarrow> configuration \<Rightarrow> thread \<Rightarrow> string \<Rightarrow> run_status \<Rightarrow> world
     \<Rightarrow> (js_error + unit) \<times> world" where
  "resolve_run e r config th userInput runStatus w =
     (if runStatus = Completed then
        (case getMessages e config (threadId th) w of
           (Inl err, w1) \<Rightarrow> (Inl err, w1)
         | (Inr messagesResponse, w1) \<Rightarrow>
             (case find (\<lambda>m. om_role m = Assistant) (data messagesResponse) of
                Some assistantMessage \<Rightarrow>
                  (let cont = extract_text assistantMessage;
                       (t, w2) = now e w1;
                       newAssistantMessage =
                         \<lparr>msg_id = None, msg_threadId = threadId th, content = cont,
                          role = Assistant, timestamp = t, attachments = []\<rparr>;
                       w3 = addMessage e newAssistantMessage w2;
                       w4 = updateThreadNameIfNeeded r userInput w3;
                       w5 = sendWebhookIfConfigured e r userInput w4
                   in (Inr (), w5))
              | None \<Rightarrow> (Inl (Error ''No assistant response found in the thread''), w1)))
      else if runStatus = Failed then
        (Inl (Error ''Assistant run failed. Please try again.''), w)
      else if runStatus = Cancelled then
        (Inl (Error ''Assistant run was cancelled.''), w)
      else (Inl (Error ''Assistant run timed out. Please try again.''), w))"

definition handleAssistantWorkflow ::
  "env \<Rightarrow> closure \<Rightarrow> string \<Rightarrow> world \<Rightarrow> (js_error + unit) \<times> world" where
  "handleAssistantWorkflow e r userInput w =
     (case (c_activeConfiguration r, c_activeThread r) of
        (Some config, Some th) \<Rightarrow>
          (let fileIds = (if length (c_fileAttachments r) > 0 then Some [] else None)
           in case sendMessage e config (threadId th) userInput fileIds w of
                (Inl err, w1) \<Rightarrow> (Inl err, w1)
              | (Inr u, w1) \<Rightarrow>
                  (case runAssistant e config (threadId th) w1 of
                     (Inl err, w2) \<Rightarrow> (Inl err, w2)
                   | (Inr runResponse, w2) \<Rightarrow>
                       (let w3 = w2\<lparr>runId := Some (run_id runResponse)\<rparr>
                        in case poll_loop e config (threadId th) (run_id runResponse)
                                  (status runResponse) 0 w3 of
                             (Inl err, w4) \<Rightarrow> (Inl err, w4)
                           | (Inr runStatus, w4) \<Rightarrow>
                               resolve_run e r config th userInput runStatus w4)))
      | _ \<Rightarrow> (Inr (), w))"

definition handleDirectCompletionWorkflow ::
  "env \<Rightarrow> closure \<Rightarrow> string \<Rightarrow> world \<Rightarrow> (js_error + unit) \<times> world" where
  "handleDirectCompletionWorkflow e r userInput w =
     (case (c_activeConfiguration r, c_activeThread r) of
        (Some config, Some th) \<Rightarrow>
          (let conversationHistory =
                 map (\<lambda>msg. \<lparr>ce_role = role msg, ce_content = content msg\<rparr>)
                     (c_threadMessages r);
               limitedHistory = slice_last 10 conversationHistory
           in case createCompletion e config
                     (limitedHistory @ [\<lparr>ce_role = User, ce_content = userInput\<rparr>]) w of
                (Inl err, w1) \<Rightarrow> (Inl err, w1)
              | (Inr response, w1) \<Rightarrow>
                  (let assistantResponse =
                         (case choices response of [] \<Rightarrow> None | c # cs \<Rightarrow> c)
                   in case assistantResponse of
                        Some resp \<Rightarrow>
                          if resp \<noteq> [] then
                            (let (t, w2) = now e w1;
                                 newAssistantMessage =
                                   \<lparr>msg_id = None, msg_threadId = threadId th,
                                    content = resp, role = Assistant, timestamp = t,
                                    attachments = []\<rparr>;
                                 w3 = addMessage e newAssistantMessage w2;
                                 w4 = updateThreadNameIfNeeded r userInput w3;
                                 w5 = sendWebhookIfConfigured e r userInput w4
                             in (Inr (), w5))
                          else (Inl (Error ''No response received from the model''), w1)
                      | None \<Rightarrow> (Inl (Error ''No response received from the model''), w1)))
      | _ \<Rightarrow> (Inr (), w))"

definition handleSendMessage :: "env \<Rightarrow> closure \<Rightarrow> world \<Rightarrow> world" where
  "handleSendMessage e r w =
     (if trim (c_input r) = [] \<or> c_activeThread r = None \<or> c_activeConfiguration r = None
      then w
      else
        (case (c_activeThread r, c_activeConfiguration r) of
           (Some th, Some config) \<Rightarrow>
             (let w1 = setLoading True w;
                  w2 = w1\<lparr>error := None\<rparr>;
                  (t, w3) = now e w2;
                  userMessage =
                    \<lparr>msg_id = None, msg_threadId = threadId th, content = c_input r,
                     role = User, timestamp = t, attachments = []\<rparr>;
                  w4 = addMessage e userMessage w3;
                  w5 = w4\<lparr>input := []\<rparr>;
                  w6 = w5\<lparr>fileAttachments := []\<rparr>;
                  (res, w7) =
                    (if useAssistantApi config \<and> assistantId config \<noteq> []
                     then handleAssistantWorkflow e r (c_input r) w6
                     else handleDirectCompletionWorkflow e r (c_input r) w6);
                  w8 = (case res of
                          Inr u \<Rightarrow> w7
                        | Inl err \<Rightarrow>
                            w7\<lparr>error :=
                                 Some (if message err \<noteq> [] then message err
                                       else ''Failed to send message. Please try again.'')\<rparr>)
              in setLoading False w8)
         | _ \<Rightarrow> w))"

text \<open>One turn: the user submits what the current render shows.\<close>

definition submit :: "env \<Rightarrow> world \<Rightarrow> world" where
  "submit e w = handleSendMessage e (render w) w"

section \<open>Auxiliary notions used to state the properties\<close>

text \<open>The loop guard of the polling loop: the statuses that end polling.\<close>

definition terminal :: "run_status \<Rightarrow> bool" where
  "terminal s \<longleftrightarrow> s = Completed \<or> s = Failed \<or> s = Cancelled"

text \<open>
  The \<open>k\<close>-th run-status read succeeds and returns a status on which polling goes on,
  respectively stops.
\<close>

definition nonterminal_read :: "env \<Rightarrow> nat \<Rightarrow> bool" where
  "nonterminal_read e k = (case get_run e k of Inl f \<Rightarrow> False | Inr sr \<Rightarrow> \<not> terminal (status sr))"

definition terminal_read :: "env \<Rightarrow> nat \<Rightarrow> bool" where
  "terminal_read e k = (case get_run e k of Inl f \<Rightarrow> False | Inr sr \<Rightarrow> terminal (status sr))"

text \<open>
  The user's message as \<open>handleSendMessage\<close> builds it and \<open>addMessage\<close> stores it:
  stamped with the first clock reading of the turn, identified by the second.
\<close>

definition userMessage :: "env \<Rightarrow> closure \<Rightarrow> thread \<Rightarrow> world \<Rightarrow> message" where
  "userMessage e r th w =
     \<lparr>msg_id = Some (clock e (Suc (ticks w))), msg_threadId = threadId th, content = c_input r,
      role = User, timestamp = clock e (ticks w), attachments = []\<rparr>"

text \<open>The state in which the workflow of a turn starts: the user's message is recorded.\<close>

definition user_recorded :: "env \<Rightarrow> closure \<Rightarrow> thread \<Rightarrow> world \<Rightarrow> world" where
  "user_recorded e r th w =
     (addMessage e \<lparr>msg_id = None, msg_threadId = threadId th, content = c_input r,
                    role = User, timestamp = clock e (ticks w), attachments = []\<rparr>
        (w\<lparr>isLoading := True, error := None, ticks := Suc (ticks w)\<rparr>))
     \<lparr>input := [], fileAttachments := []\<rparr>"

text \<open>The dispatch of \<open>handleSendMessage\<close> and its \<open>catch\<close>/\<open>finally\<close> blocks.\<close>

definition workflow :: "env \<Rightarrow> closure \<Rightarrow> configuration \<Rightarrow> world \<Rightarrow> (js_error + unit) \<times> world" where
  "workflow e r config w =
     (if useAssistantApi config \<and> assistantId config \<noteq> []
      then handleAssistantWorkflow e r (c_input r) w
      else handleDirectCompletionWorkflow e r (c_input r) w)"

definition report :: "js_error + unit \<Rightarrow> world \<Rightarrow> world" where
  "report res w =
     (case res of
        Inr u \<Rightarrow> w\<lparr>isLoading := False\<rparr>
      | Inl err \<Rightarrow>
          w\<lparr>error := Some (if message err \<noteq> [] then message err
                            else ''Failed to send message. Please try again.''),
            isLoading := False\<rparr>)"

text \<open>The requests \<open>sendWebhookIfConfigured\<close> adds to the log.\<close>

definition webhook_events :: "env \<Rightarrow> closure \<Rightarrow> string \<Rightarrow> world \<Rightarrow> event list" where
  "webhook_events e r ui w = drop (length (calls w)) (calls (sendWebhookIfConfigured e r ui w))"

text \<open>Events that carry no attachment and no file identifier.\<close>

fun plain_event :: "event \<Rightarrow> bool" where
  "plain_event (StoreAddMessage m) = (attachments m = [])"
| "plain_event (GwSendMessage tid p) = (file_ids p = None)"
| "plain_event _ = True"

text \<open>
  What a workflow may add to the log and to the store: at most \<open>maxPolls\<close> status reads,
  no attachment anywhere, one assistant message on success and none on failure.
\<close>

definition effect_ok :: "js_error + unit \<Rightarrow> event list \<Rightarrow> message list \<Rightarrow> bool" where
  "effect_ok res evs ms \<longleftrightarrow>
     polls evs \<le> maxPolls \<and> list_all plain_event evs
     \<and> map role ms = (case res of Inl err \<Rightarrow> [] | Inr u \<Rightarrow> [Assistant])
     \<and> list_all (\<lambda>m. attachments m = []) ms"

text \<open>The status returned by the \<open>k\<close>-th run-status read, when the read succeeds.\<close>

definition read_status :: "env \<Rightarrow> nat \<Rightarrow> run_status option" where
  "read_status e k = (case get_run e k of Inl f \<Rightarrow> None | Inr sr \<Rightarrow> Some (status sr))"


text \<open>Role and text of a stored message.\<close>

definition role_content :: "message \<Rightarrow> role \<times> string" where
  "role_content m = (role m, content m)"



text \<open>The histories of the completion requests in a log, in order.\<close>

fun completion_histories :: "event list \<Rightarrow> chat_entry list list" where
  "completion_histories [] = []"
| "completion_histories (GwCreateCompletion req # evs) = cr_messages req # completion_histories evs"
| "completion_histories (ev # evs) = completion_histories evs"

text \<open>The reads a turn issues at the gateway: run-status reads and message-list reads.\<close>

fun is_listMessages :: "event \<Rightarrow> bool" where
  "is_listMessages (GwGetMessages _) = True"
| "is_listMessages _ = False"

definition gateway_reads :: "event list \<Rightarrow> event list" where
  "gateway_reads evs = filter (\<lambda>ev. is_poll ev \<or> is_listMessages ev) evs"






section \<open>Example inputs\<close>

definition ex_thread :: thread where
  "ex_thread = \<lparr>threadId = ''t1'', name = ''Thread 1'', createdAt = 0, lastUpdated = 0, isActive = True\<rparr>"

definition ex_direct :: configuration where
  "ex_direct = \<lparr>cfg_id = Some ''1'', apiKey = ''sk-test'', assistantId = [], vectorStoreId = [],
     model = ''gpt-4'', isDefault = True, cfg_name = ''Default'', webhookURL = [], useAssistantApi = False\<rparr>"

definition ex_assisted :: configuration where
  "ex_assisted = \<lparr>cfg_id = Some ''2'', apiKey = ''sk-test'', assistantId = ''asst_1'', vectorStoreId = [],
     model = ''gpt-4'', isDefault = True, cfg_name = ''Assisted'', webhookURL = ''https://hook'', useAssistantApi = True\<rparr>"

definition ex_world :: "configuration \<Rightarrow> string \<Rightarrow> world" where
  "ex_world cfg inp = \<lparr>threads = [ex_thread], activeThread = Some ex_thread, messages = [],
     activeConfiguration = Some cfg, isLoading = False, input = inp, fileAttachments = [''a.pdf''],
     error = None, runId = None, calls = [], ticks = 0\<rparr>"

definition ex_failure :: http_failure where
  "ex_failure = \<lparr>isAxiosError = True, response_status = Some 500, api_error_message = None,
     failure_message = ''Request failed with status code 500''\<rparr>"

definition ex_env :: "(nat \<Rightarrow> run_status) \<Rightarrow> env" where
  "ex_env sts = \<lparr>post_message = Inr (), post_run = Inr \<lparr>run_id = ''run_1'', status = Queued\<rparr>,
     get_run = (\<lambda>k. Inr \<lparr>run_id = ''run_1'', status = sts k\<rparr>),
     get_messages = Inr \<lparr>data = [\<lparr>om_id = ''m2'', created_at = 2, om_role = Assistant,
         om_content = [\<lparr>part_type = ''text'', part_text = Some ''Hi''\<rparr>, \<lparr>part_type = ''image_file'', part_text = None\<rparr>,
                       \<lparr>part_type = ''text'', part_text = Some ''there''\<rparr>]\<rparr>,
       \<lparr>om_id = ''m1'', created_at = 1, om_role = User, om_content = [\<lparr>part_type = ''text'', part_text = Some ''Hello''\<rparr>]\<rparr>]\<rparr>,
     post_completion = Inr \<lparr>choices = [Some ''Hi there'']\<rparr>,
     post_webhook = Inl ex_failure,
     clock = (\<lambda>k. 1000 + k)\<rparr>"



section \<open>Lemmas\<close>

lemmas model_defs = submit_def render_def handleSendMessage_def handleAssistantWorkflow_def
  handleDirectCompletionWorkflow_def resolve_run_def extract_text_def sendWebhookIfConfigured_def
  updateThreadNameIfNeeded_def sendWebhook_def createCompletion_def getMessages_def checkRunStatus_def
  runAssistant_def sendMessage_def setLoading_def getThreadMessages_def addMessage_def updateThread_def
  now_def slice_last_def trim_def isWhiteSpace_def maxPolls_def polls_def

lemmas ex_defs = ex_thread_def ex_direct_def ex_assisted_def ex_world_def ex_failure_def ex_env_def

lemma poll_loop_frame:
  "poll_loop e c tid rid s n w = (res, w') \<Longrightarrow>
   \<exists>k. k \<le> maxPolls - n \<and> w' = w\<lparr>calls := calls w @ replicate k (GwCheckRunStatus tid rid)\<rparr>"
proof (induction e c tid rid s n w arbitrary: res w' rule: poll_loop.induct)
  case (1 e config tid rid runStatus pollCount w)
  show ?case
  proof (cases "runStatus \<noteq> Completed \<and> runStatus \<noteq> Failed \<and> runStatus \<noteq> Cancelled \<and> pollCount < maxPolls")
    case False
    with "1.prems" have "w' = w" by (simp add: poll_loop.simps)
    then show ?thesis by (intro exI[of _ 0]) simp
  next
    case True
    let ?w1 = "w\<lparr>calls := calls w @ [GwCheckRunStatus tid rid]\<rparr>"
    show ?thesis
    proof (cases "get_run e (polls (calls w))")
      case (Inl f)
      with True "1.prems" have "w' = ?w1"
        by (simp add: poll_loop.simps[of e config tid rid runStatus pollCount w] checkRunStatus_def)
      with True show ?thesis by (intro exI[of _ 1]) auto
    next
      case (Inr sr)
      with True "1.prems" have *: "poll_loop e config tid rid (status sr) (pollCount + 1) ?w1 = (res, w')"
        by (simp add: poll_loop.simps[of e config tid rid runStatus pollCount w] checkRunStatus_def)
      have "checkRunStatus e config tid rid w = (Inr sr, ?w1)" using Inr by (simp add: checkRunStatus_def)
      from "1.IH"[OF True this[symmetric] refl *]
      obtain k where k: "k \<le> maxPolls - (pollCount + 1)" "w' = ?w1\<lparr>calls := calls ?w1 @ replicate k (GwCheckRunStatus tid rid)\<rparr>"
        by blast
      with True show ?thesis by (intro exI[of _ "Suc k"]) (auto simp: replicate_app_Cons_same)
    qed
  qed
qed

lemma updateThread_fields [simp]:
  "messages (updateThread th w) = messages w"
  "calls (updateThread th w) = calls w"
  "error (updateThread th w) = error w"
  "ticks (updateThread th w) = ticks w"
  by (simp_all add: updateThread_def)

lemma addMessage_messages [simp]:
  "messages (addMessage e m w) = messages w @ [m\<lparr>msg_id := Some (clock e (ticks w))\<rparr>]"
  by (simp add: addMessage_def now_def Let_def split: option.splits)

lemma addMessage_calls [simp]:
  "calls (addMessage e m w) = calls w @ [StoreAddMessage (m\<lparr>msg_id := Some (clock e (ticks w))\<rparr>)]"
  by (simp add: addMessage_def now_def Let_def split: option.splits)

lemma addMessage_error [simp]: "error (addMessage e m w) = error w"
  by (simp add: addMessage_def now_def Let_def split: option.splits)

lemma updateThreadNameIfNeeded_fields [simp]:
  "messages (updateThreadNameIfNeeded r ui w) = messages w"
  "calls (updateThreadNameIfNeeded r ui w) = calls w"
  "error (updateThreadNameIfNeeded r ui w) = error w"
  by (simp_all add: updateThreadNameIfNeeded_def Let_def split: option.splits)

lemma sendWebhookIfConfigured_fields [simp]:
  "messages (sendWebhookIfConfigured e r ui w) = messages w"
  "error (sendWebhookIfConfigured e r ui w) = error w"
  by (simp_all add: sendWebhookIfConfigured_def sendWebhook_def now_def Let_def split: option.splits sum.splits)

lemma sendWebhookIfConfigured_calls_eq:
  "calls (sendWebhookIfConfigured e r ui w) = calls w @ webhook_events e r ui w"
  by (simp add: webhook_events_def sendWebhookIfConfigured_def sendWebhook_def now_def Let_def split: option.splits sum.splits)

lemma webhook_events_cases:
  "webhook_events e r ui w = [] \<or> (\<exists>u p. webhook_events e r ui w = [GwWebhook u p])"
  by (simp add: webhook_events_def sendWebhookIfConfigured_def sendWebhook_def now_def Let_def split: option.splits sum.splits)

lemma turn_unfold:
  assumes "trim (c_input r) \<noteq> []" "c_activeThread r = Some th" "c_activeConfiguration r = Some config"
  shows "handleSendMessage e r w =
           (case workflow e r config (user_recorded e r th w) of (res, w7) \<Rightarrow> report res w7)"
  using assms
  by (simp add: handleSendMessage_def user_recorded_def workflow_def report_def setLoading_def now_def Let_def
           split: prod.splits sum.splits)

lemma user_recorded_fields:
  "messages (user_recorded e r th w) = messages w @
      [userMessage e r th w]"
  "calls (user_recorded e r th w) = calls w @
      [StoreAddMessage (userMessage e r th w)]"
  "error (user_recorded e r th w) = None"
  by (simp_all add: user_recorded_def userMessage_def)

lemma polls_simps [simp]:
  "polls [] = 0"
  "polls (xs @ ys) = polls xs + polls ys"
  "polls (ev # xs) = (if is_poll ev then 1 else 0) + polls xs"
  "polls (replicate k (GwCheckRunStatus tid rid)) = k"
  by (simp_all add: polls_def)

lemma webhook_events_plain [simp]:
  "list_all plain_event (webhook_events e r ui w)" "polls (webhook_events e r ui w) = 0"
  using webhook_events_cases[of e r ui w] by auto

lemma resolve_run_effect:
  assumes "resolve_run e r config th ui s w = (res, w')"
  shows "\<exists>evs ms. calls w' = calls w @ evs \<and> messages w' = messages w @ ms \<and> error w' = error w
           \<and> polls evs = 0 \<and> effect_ok res evs ms"
  using assms
  by (auto simp: resolve_run_def getMessages_def now_def Let_def effect_ok_def
        sendWebhookIfConfigured_calls_eq
        split: if_splits sum.splits option.splits)

lemma sendMessage_snd:
  "snd (sendMessage e c tid ui fids w) =
     w\<lparr>calls := calls w @ [GwSendMessage tid
          \<lparr>sp_role = ''user'', sp_content = ui,
           file_ids = (case fids of None \<Rightarrow> None | Some f \<Rightarrow> if f = [] then None else Some f)\<rparr>]\<rparr>"
  by (simp add: sendMessage_def Let_def split: sum.splits option.splits)

lemma runAssistant_snd:
  "snd (runAssistant e c tid w) =
     w\<lparr>calls := calls w @ [GwRunAssistant tid
          \<lparr>assistant_id = assistantId c, rp_model = (if model c \<noteq> [] then Some (model c) else None)\<rparr>]\<rparr>"
  by (simp add: runAssistant_def Let_def split: sum.splits option.splits)

lemma assisted_effect:
  assumes "c_activeConfiguration r = Some config" "c_activeThread r = Some th"
      and "handleAssistantWorkflow e r ui w = (res, w')"
  shows "\<exists>evs ms. calls w' = calls w @ evs \<and> messages w' = messages w @ ms \<and> error w' = error w
           \<and> effect_ok res evs ms"
proof -
  let ?fids = "if length (c_fileAttachments r) > 0 then Some [] else None"
  obtain r1 w1 where s: "sendMessage e config (threadId th) ui ?fids w = (r1, w1)" by force
  from sendMessage_snd[of e config "threadId th" ui ?fids w] s
  have w1: "w1 = w\<lparr>calls := calls w @ [GwSendMessage (threadId th) \<lparr>sp_role = ''user'', sp_content = ui, file_ids = None\<rparr>]\<rparr>"
    by (simp split: if_splits)
  show ?thesis
  proof (cases r1)
    case (Inl err)
    with assms s w1 show ?thesis
      by (auto simp: handleAssistantWorkflow_def effect_ok_def maxPolls_def)
  next
    case (Inr u)
    obtain r2 w2 where ra: "runAssistant e config (threadId th) w1 = (r2, w2)" by force
    from runAssistant_snd[of e config "threadId th" w1] ra
    obtain ev where w2: "w2 = w1\<lparr>calls := calls w1 @ [ev]\<rparr>" "plain_event ev" "\<not> is_poll ev"
      by auto
    show ?thesis
    proof (cases r2)
      case (Inl err)
      with assms s w1 ra w2 Inr show ?thesis
        by (auto simp: handleAssistantWorkflow_def effect_ok_def maxPolls_def)
    next
      case run: (Inr run)
      let ?w3 = "w2\<lparr>runId := Some (run_id run)\<rparr>"
      obtain r4 w4 where pl: "poll_loop e config (threadId th) (run_id run) (status run) 0 ?w3 = (r4, w4)" by force
      from poll_loop_frame[OF pl] obtain k where
        k: "k \<le> maxPolls" "w4 = ?w3\<lparr>calls := calls ?w3 @ replicate k (GwCheckRunStatus (threadId th) (run_id run))\<rparr>"
        by auto
      have pe: "list_all plain_event (replicate k (GwCheckRunStatus (threadId th) (run_id run)))"
        by (simp add: list_all_iff)
      show ?thesis
      proof (cases r4)
        case (Inl err)
        with assms s w1 ra w2 Inr run pl k pe show ?thesis
          by (auto simp: handleAssistantWorkflow_def effect_ok_def)
      next
        case st: (Inr st)
        with assms s ra Inr run pl have rr: "resolve_run e r config th ui st w4 = (res, w')"
          by (simp add: handleAssistantWorkflow_def)
        from resolve_run_effect[OF rr] obtain evs ms where
          "calls w' = calls w4 @ evs" "messages w' = messages w4 @ ms" "error w' = error w4" "polls evs = 0" "effect_ok res evs ms"
          by blast
        with w1 w2 k pe show ?thesis
          by (auto simp: effect_ok_def)
      qed
    qed
  qed
qed

lemma direct_effect:
  assumes "c_activeConfiguration r = Some config" "c_activeThread r = Some th"
      and "handleDirectCompletionWorkflow e r ui w = (res, w')"
  shows "\<exists>evs ms. calls w' = calls w @ evs \<and> messages w' = messages w @ ms \<and> error w' = error w
           \<and> effect_ok res evs ms"
  using assms
  by (auto simp: handleDirectCompletionWorkflow_def createCompletion_def now_def Let_def effect_ok_def
        sendWebhookIfConfigured_calls_eq
        split: if_splits sum.splits option.splits list.splits)

lemma workflow_effect:
  assumes "c_activeConfiguration r = Some config" "c_activeThread r = Some th"
      and "workflow e r config w = (res, w')"
  shows "\<exists>evs ms. calls w' = calls w @ evs \<and> messages w' = messages w @ ms \<and> error w' = error w
           \<and> effect_ok res evs ms"
  using assms assisted_effect[of r config th e "c_input r" w res w']
    direct_effect[of r config th e "c_input r" w res w']
  by (simp add: workflow_def split: if_splits)

lemma report_fields [simp]:
  "calls (report res w) = calls w" "messages (report res w) = messages w"
  "error (report res w) = (case res of Inl err \<Rightarrow> Some (if message err \<noteq> [] then message err
                            else ''Failed to send message. Please try again.'') | Inr u \<Rightarrow> error w)"
  by (simp_all add: report_def split: sum.splits)

text \<open>Summary of a turn that passes validation.\<close>

lemma turn_effect:
  assumes "trim (c_input r) \<noteq> []" "c_activeThread r = Some th" "c_activeConfiguration r = Some config"
  shows "\<exists>evs ms. 
     calls (handleSendMessage e r w) = calls w @ 
        StoreAddMessage (userMessage e r th w) # evs
   \<and> messages (handleSendMessage e r w) = messages w @ 
        userMessage e r th w # ms
   \<and> polls evs \<le> maxPolls \<and> list_all plain_event evs \<and> list_all (\<lambda>m. attachments m = []) ms
   \<and> map role ms = (if error (handleSendMessage e r w) = None then [Assistant] else [])"
proof -
  obtain res w7 where wf: "workflow e r config (user_recorded e r th w) = (res, w7)" by force
  from workflow_effect[OF assms(3) assms(2) wf] obtain evs ms where
    *: "calls w7 = calls (user_recorded e r th w) @ evs" "messages w7 = messages (user_recorded e r th w) @ ms"
       "error w7 = error (user_recorded e r th w)" "effect_ok res evs ms" by blast
  have "handleSendMessage e r w = report res w7" using turn_unfold[OF assms] wf by simp
  with * show ?thesis
    by (cases res) (auto simp: user_recorded_fields effect_ok_def)
qed

lemma poll_loop_stop:
  "terminal s \<or> maxPolls \<le> n \<Longrightarrow> poll_loop e c tid rid s n w = (Inr s, w)"
  by (subst poll_loop.simps) (auto simp: terminal_def)

lemma poll_loop_step:
  "\<not> terminal s \<Longrightarrow> n < maxPolls \<Longrightarrow> get_run e (polls (calls w)) = Inr sr \<Longrightarrow>
   poll_loop e c tid rid s n w =
     poll_loop e c tid rid (status sr) (Suc n) (w\<lparr>calls := calls w @ [GwCheckRunStatus tid rid]\<rparr>)"
  by (subst poll_loop.simps) (simp add: terminal_def checkRunStatus_def)

lemma poll_loop_advance:
  "\<not> terminal s \<Longrightarrow> n + j \<le> maxPolls \<Longrightarrow> \<forall>k<j. nonterminal_read e (polls (calls w) + k) \<Longrightarrow>
   \<exists>s'. \<not> terminal s' \<and>
     poll_loop e c tid rid s n w =
       poll_loop e c tid rid s' (n + j) (w\<lparr>calls := calls w @ replicate j (GwCheckRunStatus tid rid)\<rparr>)"
proof (induction j arbitrary: s n w)
  case 0
  then show ?case by auto
next
  case (Suc j)
  from Suc.prems(3) have "nonterminal_read e (polls (calls w))" by force
  then obtain sr where sr: "get_run e (polls (calls w)) = Inr sr" "\<not> terminal (status sr)"
    by (auto simp: nonterminal_read_def split: sum.splits)
  let ?w1 = "w\<lparr>calls := calls w @ [GwCheckRunStatus tid rid]\<rparr>"
  have step: "poll_loop e c tid rid s n w = poll_loop e c tid rid (status sr) (Suc n) ?w1"
    using Suc.prems sr by (intro poll_loop_step) auto
  have "\<forall>k<j. nonterminal_read e (polls (calls ?w1) + k)"
    using Suc.prems(3) by auto
  from Suc.IH[OF sr(2) _ this, of "Suc n"] Suc.prems(2) obtain s' where
    "\<not> terminal s'" "poll_loop e c tid rid (status sr) (Suc n) ?w1 =
       poll_loop e c tid rid s' (Suc n + j) (?w1\<lparr>calls := calls ?w1 @ replicate j (GwCheckRunStatus tid rid)\<rparr>)"
    by auto
  with step show ?case by (auto simp: replicate_app_Cons_same)
qed

lemma poll_loop_reach:
  assumes "\<not> terminal s" "n + j < maxPolls" "\<forall>k<j. nonterminal_read e (polls (calls w) + k)"
      and "get_run e (polls (calls w) + j) = Inr sr" "terminal (status sr)"
  shows "poll_loop e c tid rid s n w =
           (Inr (status sr), w\<lparr>calls := calls w @ replicate (Suc j) (GwCheckRunStatus tid rid)\<rparr>)"
proof -
  let ?ev = "GwCheckRunStatus tid rid"
  let ?wj = "w\<lparr>calls := calls w @ replicate j ?ev\<rparr>"
  from poll_loop_advance[OF assms(1) _ assms(3), of n c tid rid] assms(2) obtain s' where
    s': "\<not> terminal s'" "poll_loop e c tid rid s n w = poll_loop e c tid rid s' (n + j) ?wj"
    by auto
  have "poll_loop e c tid rid s' (n + j) ?wj =
          poll_loop e c tid rid (status sr) (Suc (n + j)) (?wj\<lparr>calls := calls ?wj @ [?ev]\<rparr>)"
    using s'(1) assms(2,4) by (intro poll_loop_step) auto
  also have "\<dots> = (Inr (status sr), ?wj\<lparr>calls := calls ?wj @ [?ev]\<rparr>)"
    using assms(5) by (intro poll_loop_stop) simp
  finally show ?thesis using s'(2) by (simp add: replicate_append_same)
qed

lemma poll_loop_exhaust:
  assumes "\<not> terminal s" "\<forall>k<maxPolls. nonterminal_read e (polls (calls w) + k)"
  shows "\<exists>s'. \<not> terminal s' \<and> poll_loop e c tid rid s 0 w =
           (Inr s', w\<lparr>calls := calls w @ replicate maxPolls (GwCheckRunStatus tid rid)\<rparr>)"
proof -
  from poll_loop_advance[OF assms(1) _ assms(2), of 0 c tid rid] obtain s' where
    s': "\<not> terminal s'" "poll_loop e c tid rid s 0 w =
      poll_loop e c tid rid s' maxPolls (w\<lparr>calls := calls w @ replicate maxPolls (GwCheckRunStatus tid rid)\<rparr>)"
    by auto
  then show ?thesis by (auto simp: poll_loop_stop)
qed

lemma assisted_unfold:
  assumes "c_activeConfiguration r = Some config" "c_activeThread r = Some th"
      and "post_message e = Inr u" "post_run e = Inr run"
  shows "handleAssistantWorkflow e r ui w =
    (case poll_loop e config (threadId th) (run_id run) (status run) 0
            (w\<lparr>calls := calls w @
                 [GwSendMessage (threadId th) \<lparr>sp_role = ''user'', sp_content = ui, file_ids = None\<rparr>,
                  GwRunAssistant (threadId th)
                    \<lparr>assistant_id = assistantId config,
                     rp_model = (if model config \<noteq> [] then Some (model config) else None)\<rparr>],
               runId := Some (run_id run)\<rparr>) of
       (Inl err, w4) \<Rightarrow> (Inl err, w4)
     | (Inr runStatus, w4) \<Rightarrow> resolve_run e r config th ui runStatus w4)"
  using assms
  by (simp add: handleAssistantWorkflow_def sendMessage_def runAssistant_def Let_def)

lemma resolve_run_timeout:
  "\<not> terminal s \<Longrightarrow> resolve_run e r c th ui s w =
     (Inl (Error ''Assistant run timed out. Please try again.''), w)"
  by (simp add: resolve_run_def terminal_def)

lemma polls_user_recorded [simp]:
  "polls (calls (user_recorded e r th w)) = polls (calls w)"
  by (simp add: user_recorded_fields)

lemma turn_assisted:
  assumes "trim (c_input r) \<noteq> []" "c_activeThread r = Some th" "c_activeConfiguration r = Some config"
      and "useAssistantApi config" "assistantId config \<noteq> []"
      and "post_message e = Inr u" "post_run e = Inr run"
      and "poll_loop e config (threadId th) (run_id run) (status run) 0
            ((user_recorded e r th w)\<lparr>calls := calls (user_recorded e r th w) @
                 [GwSendMessage (threadId th) \<lparr>sp_role = ''user'', sp_content = c_input r, file_ids = None\<rparr>,
                  GwRunAssistant (threadId th)
                    \<lparr>assistant_id = assistantId config,
                     rp_model = (if model config \<noteq> [] then Some (model config) else None)\<rparr>],
               runId := Some (run_id run)\<rparr>) = (Inr s, w4)"
      and "resolve_run e r config th (c_input r) s w4 = (res, w7)"
  shows "handleSendMessage e r w = report res w7"
  using assms
  by (simp add: turn_unfold[OF assms(1-3)] workflow_def assisted_unfold[OF assms(3) assms(2) assms(6,7)])

lemma poll_loop_webhook:
  "poll_loop (e\<lparr>post_webhook := x\<rparr>) c tid rid s n w = poll_loop e c tid rid s n w"
proof (induction e c tid rid s n w rule: poll_loop.induct)
  case (1 e config tid rid runStatus pollCount w)
  have cr: "checkRunStatus (e\<lparr>post_webhook := x\<rparr>) config tid rid w = checkRunStatus e config tid rid w"
    by (simp add: checkRunStatus_def)
  show ?case
    apply (subst poll_loop.simps)
    apply (subst (2) poll_loop.simps)
    using 1 by (auto simp: cr split: prod.splits sum.splits)
qed

lemma now_webhook: "now (e\<lparr>post_webhook := x\<rparr>) w = now e w"
  by (simp add: now_def)

lemma addMessage_webhook: "addMessage (e\<lparr>post_webhook := x\<rparr>) m w = addMessage e m w"
  by (simp add: addMessage_def now_def Let_def split: option.splits)

lemma sendWebhookIfConfigured_webhook:
  "sendWebhookIfConfigured (e\<lparr>post_webhook := x\<rparr>) r ui w = sendWebhookIfConfigured e r ui w"
  by (simp add: sendWebhookIfConfigured_def sendWebhook_def now_def Let_def split: sum.splits option.splits)

lemma resolve_run_webhook:
  "resolve_run (e\<lparr>post_webhook := x\<rparr>) r c th ui s w = resolve_run e r c th ui s w"
  by (simp add: resolve_run_def getMessages_def now_def Let_def addMessage_webhook sendWebhookIfConfigured_webhook
        split: sum.splits option.splits)

lemma assisted_webhook:
  "handleAssistantWorkflow (e\<lparr>post_webhook := x\<rparr>) r ui w = handleAssistantWorkflow e r ui w"
  by (simp add: handleAssistantWorkflow_def sendMessage_def runAssistant_def Let_def poll_loop_webhook resolve_run_webhook
        split: sum.splits option.splits prod.splits)

lemma direct_webhook:
  "handleDirectCompletionWorkflow (e\<lparr>post_webhook := x\<rparr>) r ui w = handleDirectCompletionWorkflow e r ui w"
  by (simp add: handleDirectCompletionWorkflow_def createCompletion_def now_def Let_def addMessage_webhook sendWebhookIfConfigured_webhook
        split: sum.splits option.splits list.splits)

lemma completion_histories_append [simp]:
  "completion_histories (xs @ ys) = completion_histories xs @ completion_histories ys"
  by (induction xs rule: completion_histories.induct) simp_all

lemma completion_histories_webhook [simp]:
  "completion_histories (webhook_events e r ui w) = []"
  using webhook_events_cases[of e r ui w] by auto


lemma gateway_reads_simps [simp]:
  "gateway_reads [] = []"
  "gateway_reads (xs @ ys) = gateway_reads xs @ gateway_reads ys"
  "gateway_reads (ev # xs) = (if is_poll ev \<or> is_listMessages ev then [ev] else []) @ gateway_reads xs"
  "gateway_reads (replicate k (GwCheckRunStatus tid rid)) = replicate k (GwCheckRunStatus tid rid)"
  by (simp_all add: gateway_reads_def)

lemma gateway_reads_webhook [simp]: "gateway_reads (webhook_events e r ui w) = []"
  using webhook_events_cases[of e r ui w] by auto

lemma resolve_run_reads:
  "gateway_reads (calls (snd (resolve_run e r c th ui s w))) =
     gateway_reads (calls w) @ (if s = Completed then [GwGetMessages (threadId th)] else [])"
  by (simp add: resolve_run_def getMessages_def now_def Let_def sendWebhookIfConfigured_calls_eq
        split: sum.splits option.splits)

lemma read_status_nonterminal:
  "read_status e k = Some s \<Longrightarrow> \<not> terminal s \<Longrightarrow> nonterminal_read e k"
  by (auto simp: read_status_def nonterminal_read_def split: sum.splits)



lemma role_content_userMessage [simp]: "role_content (userMessage e r th w) = (User, c_input r)"
  by (simp add: role_content_def userMessage_def)








lemma sendWebhookIfConfigured_threads [simp]:
  "threads (sendWebhookIfConfigured e r ui w) = threads w"
  "activeThread (sendWebhookIfConfigured e r ui w) = activeThread w"
  by (simp_all add: sendWebhookIfConfigured_def sendWebhook_def now_def Let_def split: option.splits sum.splits)








lemma report_threads [simp]:
  "threads (report res w) = threads w" "activeThread (report res w) = activeThread w"
  by (simp_all add: report_def split: sum.splits)


section \<open>Properties\<close>

text \<open>
  C1. In an assisted-mode turn the polling loop issues at most 60 run-status reads.
  When the request that posts the message and the one that starts the run succeed:
  a run that starts in a terminal status (completed, failed, cancelled) is never polled;
  otherwise, if reads \<open>0..j-1\<close> return a non-terminal status (queued, in_progress,
  requires_action, expired) and read \<open>j < 60\<close> returns a terminal one, exactly \<open>j + 1\<close>
  reads are issued; and if 60 reads in a row return a non-terminal status, exactly 60 reads
  are issued and the turn ends with the timed-out error, not with the run-failed error.
\<close>

theorem C1_polling:
  assumes "trim (c_input r) \<noteq> []" "c_activeThread r = Some th" "c_activeConfiguration r = Some config"
      and "useAssistantApi config" "assistantId config \<noteq> []"
  shows "polls (calls (handleSendMessage e r w)) \<le> polls (calls w) + 60
    \<and> (\<forall>u run. post_message e = Inr u \<and> post_run e = Inr run \<longrightarrow>
         (terminal (status run) \<longrightarrow> polls (calls (handleSendMessage e r w)) = polls (calls w))
       \<and> (\<not> terminal (status run) \<longrightarrow>
            (\<forall>j<60. (\<forall>k<j. nonterminal_read e (polls (calls w) + k))
                    \<and> terminal_read e (polls (calls w) + j)
                \<longrightarrow> polls (calls (handleSendMessage e r w)) = polls (calls w) + Suc j)
          \<and> ((\<forall>k<60. nonterminal_read e (polls (calls w) + k))
                \<longrightarrow> polls (calls (handleSendMessage e r w)) = polls (calls w) + 60
                  \<and> error (handleSendMessage e r w) = Some ''Assistant run timed out. Please try again.''
                  \<and> error (handleSendMessage e r w) \<noteq> Some ''Assistant run failed. Please try again.'')))"
proof -
  let ?w' = "handleSendMessage e r w"
  let ?p = "polls (calls w)"
  have bound: "polls (calls ?w') \<le> ?p + 60"
    using turn_effect[OF assms(1-3), of e w] by (auto simp: maxPolls_def)
  have rest: "(terminal (status run) \<longrightarrow> polls (calls ?w') = ?p)
       \<and> (\<not> terminal (status run) \<longrightarrow>
            (\<forall>j<60. (\<forall>k<j. nonterminal_read e (?p + k)) \<and> terminal_read e (?p + j)
                \<longrightarrow> polls (calls ?w') = ?p + Suc j)
          \<and> ((\<forall>k<60. nonterminal_read e (?p + k))
                \<longrightarrow> polls (calls ?w') = ?p + 60
                  \<and> error ?w' = Some ''Assistant run timed out. Please try again.''
                  \<and> error ?w' \<noteq> Some ''Assistant run failed. Please try again.''))"
    if ok: "post_message e = Inr u" "post_run e = Inr run" for u run
  proof -
    let ?ev = "GwCheckRunStatus (threadId th) (run_id run)"
    let ?w3 = "(user_recorded e r th w)\<lparr>calls := calls (user_recorded e r th w) @
                 [GwSendMessage (threadId th) \<lparr>sp_role = ''user'', sp_content = c_input r, file_ids = None\<rparr>,
                  GwRunAssistant (threadId th)
                    \<lparr>assistant_id = assistantId config,
                     rp_model = (if model config \<noteq> [] then Some (model config) else None)\<rparr>],
               runId := Some (run_id run)\<rparr>"
    have p3: "polls (calls ?w3) = ?p" by simp
    have fin: "polls (calls ?w') = ?p + k"
      if "poll_loop e config (threadId th) (run_id run) (status run) 0 ?w3 =
              (Inr s, ?w3\<lparr>calls := calls ?w3 @ replicate k ?ev\<rparr>)" for s k
    proof -
      obtain res w7 where rr: "resolve_run e r config th (c_input r) s (?w3\<lparr>calls := calls ?w3 @ replicate k ?ev\<rparr>) = (res, w7)"
        by force
      from resolve_run_effect[OF rr] obtain evs where "calls w7 = calls (?w3\<lparr>calls := calls ?w3 @ replicate k ?ev\<rparr>) @ evs" "polls evs = 0"
        by blast
      moreover have "?w' = report res w7" by (rule turn_assisted[OF assms ok that rr])
      ultimately show ?thesis by simp
    qed
    have a: "polls (calls ?w') = ?p" if "terminal (status run)"
      using fin[of "status run" 0] that by (simp add: poll_loop_stop)
    have b: "polls (calls ?w') = ?p + Suc j"
      if nt: "\<not> terminal (status run)" and j: "j < 60" and pre: "\<forall>k<j. nonterminal_read e (?p + k)"
        and tr: "terminal_read e (?p + j)" for j
    proof -
      from tr obtain sr where sr: "get_run e (polls (calls ?w3) + j) = Inr sr" "terminal (status sr)"
        by (auto simp: terminal_read_def split: sum.splits)
      from pre have pre3: "\<forall>k<j. nonterminal_read e (polls (calls ?w3) + k)" by simp
      from j have j0: "0 + j < maxPolls" by (simp add: maxPolls_def)
      show ?thesis
        by (rule fin[of "status sr" "Suc j"]) (rule poll_loop_reach[OF nt j0 pre3 sr])
    qed
    have c: "polls (calls ?w') = ?p + 60
           \<and> error ?w' = Some ''Assistant run timed out. Please try again.''
           \<and> error ?w' \<noteq> Some ''Assistant run failed. Please try again.''"
      if nt: "\<not> terminal (status run)" and all: "\<forall>k<60. nonterminal_read e (?p + k)"
    proof -
      from all have all3: "\<forall>k<maxPolls. nonterminal_read e (polls (calls ?w3) + k)"
        by (simp add: maxPolls_def)
      from poll_loop_exhaust[OF nt all3, of config "threadId th" "run_id run"] obtain s' where
        s': "\<not> terminal s'" "poll_loop e config (threadId th) (run_id run) (status run) 0 ?w3 =
           (Inr s', ?w3\<lparr>calls := calls ?w3 @ replicate maxPolls ?ev\<rparr>)" by blast
      have "?w' = report (Inl (Error ''Assistant run timed out. Please try again.''))
                    (?w3\<lparr>calls := calls ?w3 @ replicate maxPolls ?ev\<rparr>)"
        by (rule turn_assisted[OF assms ok s'(2) resolve_run_timeout[OF s'(1)]])
      moreover have "polls (calls ?w') = ?p + 60" using fin[OF s'(2)] by (simp add: maxPolls_def)
      ultimately show ?thesis by simp
    qed
    from a b c show ?thesis by blast
  qed
  from bound rest show ?thesis by blast
qed

theorem C1_polling_witness:
  "polls (calls (handleSendMessage (ex_env (\<lambda>k. if even k then Requires_action else Expired))
                   (render (ex_world ex_assisted ''Hello'')) (ex_world ex_assisted ''Hello''))) = 60
   \<and> error (handleSendMessage (ex_env (\<lambda>k. if even k then Requires_action else Expired))
                   (render (ex_world ex_assisted ''Hello'')) (ex_world ex_assisted ''Hello''))
       = Some ''Assistant run timed out. Please try again.''"
proof -
  let ?e = "ex_env (\<lambda>k. if even k then Requires_action else Expired)"
  let ?w = "ex_world ex_assisted ''Hello''"
  have v: "trim (c_input (render ?w)) \<noteq> []" "c_activeThread (render ?w) = Some ex_thread"
    "c_activeConfiguration (render ?w) = Some ex_assisted"
    "useAssistantApi ex_assisted" "assistantId ex_assisted \<noteq> []"
    by (simp_all add: render_def ex_defs trim_def isWhiteSpace_def)
  have ok: "post_message ?e = Inr () \<and> post_run ?e = Inr \<lparr>run_id = ''run_1'', status = Queued\<rparr>"
    by (simp add: ex_env_def)
  have nt: "\<not> terminal (status \<lparr>run_id = ''run_1'', status = Queued\<rparr>)"
    by (simp add: terminal_def)
  have every: "\<forall>k<60. nonterminal_read ?e (polls (calls ?w) + k)"
    by (simp add: nonterminal_read_def ex_env_def terminal_def)
  have p0: "polls (calls ?w) = 0"
    by (simp add: ex_world_def)
  from C1_polling [OF v, of ?e ?w] ok nt every
  have "polls (calls (handleSendMessage ?e (render ?w) ?w)) = polls (calls ?w) + 60
      \<and> error (handleSendMessage ?e (render ?w) ?w) = Some ''Assistant run timed out. Please try again.''"
    by blast
  with p0 show ?thesis by simp
qed









text \<open>
  C5. In an assisted-mode turn whose run starts in a non-terminal status and whose
  run-status reads return queued, in_progress, in_progress, completed in this order, the
  orchestrator issues exactly four run-status reads and then exactly one message-list read.
\<close>

theorem C5_four_polls_then_list:
  assumes "trim (c_input r) \<noteq> []" "c_activeThread r = Some th" "c_activeConfiguration r = Some config"
      and "useAssistantApi config" "assistantId config \<noteq> []"
      and "post_message e = Inr u" "post_run e = Inr run" "\<not> terminal (status run)"
      and "map (\<lambda>k. read_status e (polls (calls w) + k)) [0, 1, 2, 3] =
             [Some Queued, Some In_progress, Some In_progress, Some Completed]"
  shows "gateway_reads (calls (handleSendMessage e r w)) =
           gateway_reads (calls w)
           @ replicate 4 (GwCheckRunStatus (threadId th) (run_id run))
           @ [GwGetMessages (threadId th)]"
proof -
  let ?ev = "GwCheckRunStatus (threadId th) (run_id run)"
  let ?w3 = "(user_recorded e r th w)\<lparr>calls := calls (user_recorded e r th w) @
                 [GwSendMessage (threadId th) \<lparr>sp_role = ''user'', sp_content = c_input r, file_ids = None\<rparr>,
                  GwRunAssistant (threadId th)
                    \<lparr>assistant_id = assistantId config,
                     rp_model = (if model config \<noteq> [] then Some (model config) else None)\<rparr>],
               runId := Some (run_id run)\<rparr>"
  let ?p = "polls (calls w)"
  have p3: "polls (calls ?w3) = ?p" by simp
  from assms(9) have rs: "read_status e ?p = Some Queued" "read_status e (?p + 1) = Some In_progress"
    "read_status e (?p + 2) = Some In_progress" "read_status e (?p + 3) = Some Completed"
    by simp_all
  have n: "nonterminal_read e (?p + 0)" "nonterminal_read e (?p + 1)" "nonterminal_read e (?p + 2)"
    using read_status_nonterminal[OF rs(1)] read_status_nonterminal[OF rs(2)]
      read_status_nonterminal[OF rs(3)] by (simp_all add: terminal_def)
  have pre: "\<forall>k<3. nonterminal_read e (polls (calls ?w3) + k)"
  proof (intro allI impI)
    fix k :: nat assume "k < 3"
    then have "k = 0 \<or> k = 1 \<or> k = 2" by auto
    with n show "nonterminal_read e (polls (calls ?w3) + k)"
      unfolding p3 by auto
  qed
  from rs(4) obtain sr where sr: "get_run e (polls (calls ?w3) + 3) = Inr sr" "status sr = Completed"
    unfolding p3 by (auto simp: read_status_def split: sum.splits)
  have pl: "poll_loop e config (threadId th) (run_id run) (status run) 0 ?w3 =
          (Inr Completed, ?w3\<lparr>calls := calls ?w3 @ replicate 4 ?ev\<rparr>)"
    using poll_loop_reach[OF assms(8) _ pre sr(1), of 0 config "threadId th" "run_id run"] sr(2)
    by (simp add: maxPolls_def terminal_def numeral_eq_Suc)
  obtain res w7 where rr: "resolve_run e r config th (c_input r) Completed
      (?w3\<lparr>calls := calls ?w3 @ replicate 4 ?ev\<rparr>) = (res, w7)" by force
  have "handleSendMessage e r w = report res w7"
    by (rule turn_assisted[OF assms(1-7) pl rr])
  moreover from resolve_run_reads[of e r config th "c_input r" Completed "?w3\<lparr>calls := calls ?w3 @ replicate 4 ?ev\<rparr>"] rr
  have "gateway_reads (calls w7) = gateway_reads (calls (?w3\<lparr>calls := calls ?w3 @ replicate 4 ?ev\<rparr>))
          @ [GwGetMessages (threadId th)]" by simp
  ultimately show ?thesis
    by (simp add: user_recorded_fields)
qed

theorem C5_four_polls_then_list_witness:
  "gateway_reads (calls (handleSendMessage
       (ex_env (\<lambda>k. if k = 0 then Queued else if k < 3 then In_progress else Completed))
       (render (ex_world ex_assisted ''Hello'')) (ex_world ex_assisted ''Hello'')))
     = [GwCheckRunStatus ''t1'' ''run_1'', GwCheckRunStatus ''t1'' ''run_1'',
        GwCheckRunStatus ''t1'' ''run_1'', GwCheckRunStatus ''t1'' ''run_1'', GwGetMessages ''t1'']"
proof -
  let ?e = "ex_env (\<lambda>k. if k = 0 then Queued else if k < 3 then In_progress else Completed)"
  let ?w = "ex_world ex_assisted ''Hello''"
  have v: "trim (c_input (render ?w)) \<noteq> []" "c_activeThread (render ?w) = Some ex_thread"
    "c_activeConfiguration (render ?w) = Some ex_assisted"
    "useAssistantApi ex_assisted" "assistantId ex_assisted \<noteq> []"
    by (simp_all add: render_def ex_defs trim_def isWhiteSpace_def)
  have ok: "post_message ?e = Inr ()" "post_run ?e = Inr \<lparr>run_id = ''run_1'', status = Queued\<rparr>"
    "\<not> terminal (status \<lparr>run_id = ''run_1'', status = Queued\<rparr>)"
    by (simp_all add: ex_env_def terminal_def)
  have rd: "map (\<lambda>k. read_status ?e (polls (calls ?w) + k)) [0, 1, 2, 3] =
             [Some Queued, Some In_progress, Some In_progress, Some Completed]"
    by (simp add: read_status_def ex_env_def ex_world_def)
  from C5_four_polls_then_list [OF v ok rd]
  show ?thesis by (simp add: ex_world_def ex_thread_def numeral_eq_Suc)
qed

text \<open>
  C6. \<open>sendWebhook\<close> never throws: it returns true when the request succeeds and false
  when it fails. The state in which a turn ends, its error included, does not depend on the
  outcome of the webhook request: a turn that completes with a delivered notification
  completes as well with a failed one.
\<close>

theorem C6_webhook_best_effort:
  "fst (sendWebhook e url payload w) = Inr (case post_webhook e of Inl f \<Rightarrow> False | Inr u \<Rightarrow> True)
   \<and> handleSendMessage (e\<lparr>post_webhook := x\<rparr>) r w = handleSendMessage e r w"
  by (simp add: sendWebhook_def handleSendMessage_def now_def Let_def addMessage_webhook
        assisted_webhook direct_webhook split: sum.splits option.splits)

theorem C6_webhook_best_effort_witness:
  "fst (sendWebhook (ex_env (\<lambda>k. Completed)) ''https://hook''
          \<lparr>userName = ''User'', prompt = ''Hello'', wh_timestamp = 0, wh_model = ''gpt-4'',
           wh_threadId = ''t1''\<rparr>
          (ex_world (ex_direct\<lparr>webhookURL := ''https://hook''\<rparr>) ''Hello'')) = Inr False
   \<and> error (handleSendMessage (ex_env (\<lambda>k. Completed))
          (render (ex_world (ex_direct\<lparr>webhookURL := ''https://hook''\<rparr>) ''Hello''))
          (ex_world (ex_direct\<lparr>webhookURL := ''https://hook''\<rparr>) ''Hello'')) = None
   \<and> error (handleSendMessage ((ex_env (\<lambda>k. Completed))\<lparr>post_webhook := Inr ()\<rparr>)
          (render (ex_world (ex_direct\<lparr>webhookURL := ''https://hook''\<rparr>) ''Hello''))
          (ex_world (ex_direct\<lparr>webhookURL := ''https://hook''\<rparr>) ''Hello'')) = None"
proof -
  let ?e = "ex_env (\<lambda>k. Completed)"
  let ?w = "ex_world (ex_direct\<lparr>webhookURL := ''https://hook''\<rparr>) ''Hello''"
  let ?p = "\<lparr>userName = ''User'', prompt = ''Hello'', wh_timestamp = 0, wh_model = ''gpt-4'',
           wh_threadId = ''t1''\<rparr>"
  have f: "post_webhook ?e = Inl ex_failure"
    by (simp add: ex_env_def)
  have ok: "error (handleSendMessage ?e (render ?w) ?w) = None"
    by (simp add: model_defs ex_defs Let_def)
  from C6_webhook_best_effort [of ?e "''https://hook''" ?p ?w "Inr ()" "render ?w"] f ok
  show ?thesis by simp
qed

text \<open>
  C7. In every turn that passes validation, the first effect is the append of the user's
  message to the store, so it precedes every gateway call; and whatever the outcome of the
  turn, the store's message list after the turn is the list before it, followed by the
  user's message, followed by what was appended later: nothing removes or alters it.
\<close>

theorem C7_user_message_recorded:
  assumes "trim (c_input r) \<noteq> []" "c_activeThread r = Some th" "c_activeConfiguration r = Some config"
  shows "(\<exists>evs. calls (handleSendMessage e r w) = calls w @ StoreAddMessage (userMessage e r th w) # evs)
       \<and> (\<exists>ms. messages (handleSendMessage e r w) = messages w @ userMessage e r th w # ms)"
  using turn_effect[OF assms, of e w] by blast

theorem C7_user_message_recorded_witness:
  "trim (c_input (render (ex_world ex_assisted ''Hello''))) \<noteq> []
   \<and> error (handleSendMessage (ex_env (\<lambda>k. Failed)) (render (ex_world ex_assisted ''Hello''))
              (ex_world ex_assisted ''Hello'')) = Some ''Assistant run failed. Please try again.''
   \<and> (\<exists>ms. messages (handleSendMessage (ex_env (\<lambda>k. Failed)) (render (ex_world ex_assisted ''Hello''))
              (ex_world ex_assisted ''Hello''))
         = messages (ex_world ex_assisted ''Hello'')
           @ userMessage (ex_env (\<lambda>k. Failed)) (render (ex_world ex_assisted ''Hello'')) ex_thread
               (ex_world ex_assisted ''Hello'') # ms)"
proof -
  let ?e = "ex_env (\<lambda>k. Failed)"
  let ?w = "ex_world ex_assisted ''Hello''"
  have v: "trim (c_input (render ?w)) \<noteq> []" "c_activeThread (render ?w) = Some ex_thread"
    "c_activeConfiguration (render ?w) = Some ex_assisted"
    by (simp_all add: render_def ex_defs trim_def isWhiteSpace_def)
  have "error (handleSendMessage ?e (render ?w) ?w) = Some ''Assistant run failed. Please try again.''"
    by (simp add: model_defs ex_defs Let_def poll_loop.simps)
  with v(1) C7_user_message_recorded [OF v, of ?e ?w] show ?thesis by blast
qed

text \<open>
  C8. In every turn that passes validation, the messages appended to the store are the
  user's message and, exactly when the turn ends without an error, one assistant message
  after it: one assistant message on success, none on any failure.
\<close>

theorem C8_one_assistant_message:
  assumes "trim (c_input r) \<noteq> []" "c_activeThread r = Some th" "c_activeConfiguration r = Some config"
  shows "\<exists>ms. messages (handleSendMessage e r w) = messages w @ ms
           \<and> map role ms = User # (if error (handleSendMessage e r w) = None then [Assistant] else [])"
proof -
  from turn_effect[OF assms, of e w] obtain evs ms where
    "messages (handleSendMessage e r w) = messages w @ 
        userMessage e r th w # ms"
    "map role ms = (if error (handleSendMessage e r w) = None then [Assistant] else [])" by blast
  then show ?thesis by (intro exI[of _ "userMessage e r th w # ms"]) (simp add: userMessage_def)
qed

theorem C8_one_assistant_message_witness:
  "trim (c_input (render (ex_world ex_direct ''Hello''))) \<noteq> []
   \<and> map role (messages (handleSendMessage (ex_env (\<lambda>k. Completed)) (render (ex_world ex_direct ''Hello''))
                  (ex_world ex_direct ''Hello''))) = [User, Assistant]"
proof -
  let ?e = "ex_env (\<lambda>k. Completed)"
  let ?w = "ex_world ex_direct ''Hello''"
  have v: "trim (c_input (render ?w)) \<noteq> []" "c_activeThread (render ?w) = Some ex_thread"
    "c_activeConfiguration (render ?w) = Some ex_direct"
    by (simp_all add: render_def ex_defs trim_def isWhiteSpace_def)
  have ok: "error (handleSendMessage ?e (render ?w) ?w) = None"
    by (simp add: model_defs ex_defs Let_def)
  have m0: "messages ?w = []"
    by (simp add: ex_world_def)
  from C8_one_assistant_message [OF v, of ?e ?w] ok m0 v(1) show ?thesis by auto
qed



text \<open>
  C10. Every message a turn appends to the store has an empty attachment list, and every
  post-message request a turn sends carries no file identifiers, whatever files the user
  has selected.
\<close>

theorem C10_no_attachments:
  "\<exists>evs ms. calls (handleSendMessage e r w) = calls w @ evs
      \<and> messages (handleSendMessage e r w) = messages w @ ms
      \<and> list_all plain_event evs \<and> list_all (\<lambda>m. attachments m = []) ms"
proof (cases "trim (c_input r) = [] \<or> c_activeThread r = None \<or> c_activeConfiguration r = None")
  case True
  then have "handleSendMessage e r w = w" by (auto simp: handleSendMessage_def)
  then show ?thesis by simp
next
  case False
  then obtain th config where v: "trim (c_input r) \<noteq> []" "c_activeThread r = Some th"
    "c_activeConfiguration r = Some config" by auto
  from turn_effect[OF v, of e w] show ?thesis
    by (auto simp: userMessage_def)
qed

theorem C10_no_attachments_witness:
  "fileAttachments (ex_world ex_assisted ''Hello'') = [''a.pdf'']
   \<and> list_all plain_event (calls (handleSendMessage (ex_env (\<lambda>k. Failed))
        (render (ex_world ex_assisted ''Hello'')) (ex_world ex_assisted ''Hello'')))
   \<and> GwSendMessage ''t1'' \<lparr>sp_role = ''user'', sp_content = ''Hello'', file_ids = None\<rparr>
        \<in> set (calls (handleSendMessage (ex_env (\<lambda>k. Failed))
        (render (ex_world ex_assisted ''Hello'')) (ex_world ex_assisted ''Hello'')))"
proof -
  let ?e = "ex_env (\<lambda>k. Failed)"
  let ?w = "ex_world ex_assisted ''Hello''"
  have a: "fileAttachments ?w = [''a.pdf'']" "calls ?w = []"
    by (simp_all add: ex_world_def)
  have b: "GwSendMessage ''t1'' \<lparr>sp_role = ''user'', sp_content = ''Hello'', file_ids = None\<rparr>
        \<in> set (calls (handleSendMessage ?e (render ?w) ?w))"
    by (simp add: model_defs ex_defs Let_def poll_loop.simps)
  from C10_no_attachments [of ?e "render ?w" ?w] a b show ?thesis by auto
qed

end
